theory Spec2Isabelle
  imports Main "HOL-Library.Word"
begin

unbundle bit_operations_syntax

section \<open>Data model of the CDR codec\<close>

text \<open>
  The codec is the class \<open>Cdr\<close> of \<open>src/unnamed/part_000\<close> (eProsima Fast CDR,
  \<open>Cdr.cpp\<close>). A method that mutates the object and may throw is a function from the
  object to a pair: the value returned or the exception thrown, and the object as the
  method leaves it. The object is part of the result on the throwing path too, since a
  C++ exception does not undo the assignments made before it.

  Positions (\<open>_FastBuffer_iterator\<close>) are offsets from the start of the buffer, so the
  rebasing \<open>m_currentPosition << m_cdrBuffer.begin()\<close> after a resize keeps them as
  they are. Sizes (\<open>size_t\<close>) are natural numbers.
\<close>

type_synonym byte = "8 word"

text \<open>
  Modelled from the spec: the enumerations of \<open>fastcdr/Cdr.h\<close>, which is not among the
  sources. Bit 0 of the encapsulation kind is the endianness (0 big, 1 little), bit 1 is
  the parameter-list flag: \<open>endianness_val\<close> and \<open>plFlag_val\<close> are the integer values
  of the enumerators, which the source compares with and stores in \<open>uint8_t\<close> fields.
\<close>

datatype Endianness = BIG_ENDIANNESS | LITTLE_ENDIANNESS

datatype CdrType = CORBA_CDR | DDS_CDR

datatype DDSCdrPlFlag = DDS_CDR_WITHOUT_PL | DDS_CDR_WITH_PL

datatype Exception = NotEnoughMemoryException | BadParamException

fun endianness_val :: "Endianness \<Rightarrow> byte" where
  "endianness_val BIG_ENDIANNESS = 0"
| "endianness_val LITTLE_ENDIANNESS = 1"

fun plFlag_val :: "DDSCdrPlFlag \<Rightarrow> byte" where
  "plFlag_val DDS_CDR_WITHOUT_PL = 0"
| "plFlag_val DDS_CDR_WITH_PL = 2"

text \<open>
  \<open>DEFAULT_ENDIAN\<close> is the byte order of the host. The source selects it with
  \<open>#if __BIG_ENDIAN__\<close>; this is the \<open>#else\<close> branch, the one of an x86 build.
\<close>

definition DEFAULT_ENDIAN :: Endianness where
  "DEFAULT_ENDIAN = LITTLE_ENDIANNESS"

text \<open>
  Modelled from the spec: the buffer (\<open>fastcdr/FastBuffer.h\<close> is not among the
  sources). It owns a contiguous byte region and \<open>grow(min_extra)\<close> attempts to expand
  the capacity by at least \<open>min_extra\<close> bytes, answering whether it did. The allocator
  is a bound \<open>m_maxSize\<close> on the capacity it grants: a buffer whose bound is its
  present size refuses every growth. New bytes are zero.
\<close>

record FastBuffer =
  m_buffer :: "byte list"
  m_maxSize :: nat

definition FastBuffer_resize :: "FastBuffer \<Rightarrow> nat \<Rightarrow> FastBuffer option" where
  "FastBuffer_resize b minSizeInc =
     (if length (m_buffer b) + minSizeInc \<le> m_maxSize b
      then Some (b\<lparr>m_buffer := m_buffer b @ replicate minSizeInc 0\<rparr>)
      else None)"

record Cdr =
  m_cdrBuffer :: FastBuffer
  m_cdrType :: CdrType
  m_plFlag :: DDSCdrPlFlag
  m_options :: "16 word"
  m_endianness :: byte
  m_swapBytes :: bool
  m_lastDataSize :: nat
  m_currentPosition :: nat
  m_alignPosition :: nat
  m_lastPosition :: nat

text \<open>The nested class \<open>Cdr::state\<close>: the snapshot of four fields of the codec.\<close>

record state =
  st_currentPosition :: nat
  st_alignPosition :: nat
  st_swapBytes :: bool
  st_lastDataSize :: nat

type_synonym 'a result = "(Exception + 'a) \<times> Cdr"

text \<open>
  The class invariant the methods rely on: the cursor is not past \<open>m_lastPosition\<close>,
  which is not past the end of the buffer. In a state outside it the unsigned difference
  \<open>m_lastPosition - m_currentPosition\<close> of the source wraps around and the accesses that
  follow are undefined; the theorems below are about the states inside it.
\<close>

definition Cdr_inv :: "Cdr \<Rightarrow> bool" where
  "Cdr_inv c \<longleftrightarrow>
     m_currentPosition c \<le> m_lastPosition c \<and>
     m_lastPosition c \<le> length (m_buffer (m_cdrBuffer c))"

definition Cdr_new :: "FastBuffer \<Rightarrow> Endianness \<Rightarrow> CdrType \<Rightarrow> Cdr" where
  "Cdr_new cdrBuffer endianness cdrType =
     \<lparr>m_cdrBuffer = cdrBuffer, m_cdrType = cdrType, m_plFlag = DDS_CDR_WITHOUT_PL,
      m_options = 0, m_endianness = endianness_val endianness,
      m_swapBytes = (if endianness = DEFAULT_ENDIAN then False else True),
      m_lastDataSize = 0, m_currentPosition = 0, m_alignPosition = 0,
      m_lastPosition = length (m_buffer cdrBuffer)\<rparr>"

definition setDDSCdrPlFlag :: "DDSCdrPlFlag \<Rightarrow> Cdr \<Rightarrow> Cdr" where
  "setDDSCdrPlFlag plFlag c = c\<lparr>m_plFlag := plFlag\<rparr>"

definition setDDSCdrOptions :: "16 word \<Rightarrow> Cdr \<Rightarrow> Cdr" where
  "setDDSCdrOptions options c = c\<lparr>m_options := options\<rparr>"

definition getState :: "Cdr \<Rightarrow> state" where
  "getState c =
     \<lparr>st_currentPosition = m_currentPosition c, st_alignPosition = m_alignPosition c,
      st_swapBytes = m_swapBytes c, st_lastDataSize = m_lastDataSize c\<rparr>"

definition setState :: "state \<Rightarrow> Cdr \<Rightarrow> Cdr" where
  "setState s c =
     c\<lparr>m_currentPosition := st_currentPosition s, m_alignPosition := st_alignPosition s,
       m_swapBytes := st_swapBytes s, m_lastDataSize := st_lastDataSize s\<rparr>"

definition resize :: "nat \<Rightarrow> Cdr \<Rightarrow> bool \<times> Cdr" where
  "resize minSizeInc c =
     (case FastBuffer_resize (m_cdrBuffer c) minSizeInc of
        Some b \<Rightarrow> (True, c\<lparr>m_cdrBuffer := b, m_lastPosition := length (m_buffer b)\<rparr>)
      | None \<Rightarrow> (False, c))"

text \<open>
  The condition \<open>((m_lastPosition - m_currentPosition) >= n) || resize(n)\<close> that opens
  every serialize method: \<open>resize\<close> runs only when the space left is too small.
\<close>

definition space_or_resize :: "nat \<Rightarrow> Cdr \<Rightarrow> bool \<times> Cdr" where
  "space_or_resize n c =
     (if m_lastPosition c - m_currentPosition c \<ge> n then (True, c) else resize n c)"

text \<open>
  Modelled from the spec: the inline helpers of \<open>fastcdr/Cdr.h\<close>. The padding before a
  primitive of alignment \<open>w\<close> is \<open>(-(data_cursor - align_anchor)) mod w\<close>;
  \<open>makeAlign\<close> advances the cursor over it; \<open>resetAlignment\<close> sets the anchor to the
  cursor.
\<close>

definition alignment :: "Cdr \<Rightarrow> nat \<Rightarrow> nat" where
  "alignment c dataSize =
     nat ((- (int (m_currentPosition c) - int (m_alignPosition c))) mod int dataSize)"

definition makeAlign :: "nat \<Rightarrow> Cdr \<Rightarrow> Cdr" where
  "makeAlign align c = c\<lparr>m_currentPosition := m_currentPosition c + align\<rparr>"

definition resetAlignment :: "Cdr \<Rightarrow> Cdr" where
  "resetAlignment c = c\<lparr>m_alignPosition := m_currentPosition c\<rparr>"

subsection \<open>Byte access through the cursor\<close>

text \<open>
  Modelled from the spec: the operators of \<open>_FastBuffer_iterator\<close>.
  \<open>m_currentPosition++ << b\<close> writes one byte and advances by one,
  \<open>m_currentPosition++ >> b\<close> reads one byte and advances by one,
  \<open>m_currentPosition << v\<close> and \<open>memcopy\<close> copy bytes to the cursor without moving
  it, \<open>m_currentPosition >> v\<close> and \<open>rmemcopy\<close> copy bytes from it.
  Every access of the source follows a check of the space left, so under \<open>Cdr_inv\<close>
  it is inside the buffer; outside the buffer a write is dropped and a read gives 0.
\<close>

definition store :: "nat \<Rightarrow> byte list \<Rightarrow> byte list \<Rightarrow> byte list" where
  "store pos bs buf = take (length buf) (take pos buf @ bs @ drop (pos + length bs) buf)"

definition load :: "nat \<Rightarrow> nat \<Rightarrow> byte list \<Rightarrow> byte list" where
  "load pos n buf = map (\<lambda>i. if i < length buf then buf ! i else 0) [pos ..< pos + n]"

definition memcopy :: "byte list \<Rightarrow> Cdr \<Rightarrow> Cdr" where
  "memcopy bs c =
     c\<lparr>m_cdrBuffer := (m_cdrBuffer c)
         \<lparr>m_buffer := store (m_currentPosition c) bs (m_buffer (m_cdrBuffer c))\<rparr>\<rparr>"

definition rmemcopy :: "nat \<Rightarrow> Cdr \<Rightarrow> byte list" where
  "rmemcopy n c = load (m_currentPosition c) n (m_buffer (m_cdrBuffer c))"

definition advance :: "nat \<Rightarrow> Cdr \<Rightarrow> Cdr" where
  "advance n c = c\<lparr>m_currentPosition := m_currentPosition c + n\<rparr>"

definition write_byte :: "byte \<Rightarrow> Cdr \<Rightarrow> Cdr" where
  "write_byte b c = advance 1 (memcopy [b] c)"

definition read_byte :: "Cdr \<Rightarrow> byte \<times> Cdr" where
  "read_byte c = (hd (rmemcopy 1 c), advance 1 c)"

fun write_each :: "byte list \<Rightarrow> Cdr \<Rightarrow> Cdr" where
  "write_each [] c = c"
| "write_each (b # bs) c = write_each bs (write_byte b c)"

fun read_each :: "nat \<Rightarrow> Cdr \<Rightarrow> byte list \<times> Cdr" where
  "read_each 0 c = ([], c)"
| "read_each (Suc n) c =
     (case read_byte c of (b, c1) \<Rightarrow>
        (case read_each n c1 of (bs, c2) \<Rightarrow> (b # bs, c2)))"

section \<open>Booleans and characters\<close>

definition serialize_char :: "byte \<Rightarrow> Cdr \<Rightarrow> unit result" where
  "serialize_char char_t c =
     (case space_or_resize 1 c of
        (True, c1) \<Rightarrow> (Inr (), write_byte char_t (c1\<lparr>m_lastDataSize := 1\<rparr>))
      | (False, c1) \<Rightarrow> (Inl NotEnoughMemoryException, c1))"


definition deserialize_char :: "Cdr \<Rightarrow> byte result" where
  "deserialize_char c =
     (if m_lastPosition c - m_currentPosition c \<ge> 1
      then (case read_byte (c\<lparr>m_lastDataSize := 1\<rparr>) of (char_t, c1) \<Rightarrow> (Inr char_t, c1))
      else (Inl NotEnoughMemoryException, c))"

definition deserialize_bool :: "Cdr \<Rightarrow> bool result" where
  "deserialize_bool c =
     (if m_lastPosition c - m_currentPosition c \<ge> 1
      then (case read_byte (c\<lparr>m_lastDataSize := 1\<rparr>) of (v, c1) \<Rightarrow>
              if v = 1 then (Inr True, c1)
              else if v = 0 then (Inr False, c1)
              else (Inl BadParamException, c1))
      else (Inl NotEnoughMemoryException, c))"

text \<open>The byte the next read returns: the one under the cursor.\<close>

definition next_byte :: "Cdr \<Rightarrow> byte" where
  "next_byte c = hd (rmemcopy 1 c)"

section \<open>Primitives wider than a byte\<close>

text \<open>
  The overloads \<open>serialize(const int16_t)\<close> \<dots> \<open>serialize(const long double)\<close> differ in
  the width only, so one function takes the value with its type. A floating-point value is
  its bit pattern: the codec copies its bytes and computes nothing with it. \<open>long double\<close>
  has 16 bytes and is aligned to \<open>ALIGNMENT_LONG_DOUBLE = 8\<close>.
\<close>

datatype prim = INT16 | INT32 | INT64 | FLOAT | DOUBLE | LONG_DOUBLE

datatype scalar =
  Int16 "16 word" | Int32 "32 word" | Int64 "64 word"
| Float "32 word" | Double "64 word" | LongDouble "128 word"

fun sizeof :: "prim \<Rightarrow> nat" where
  "sizeof INT16 = 2"
| "sizeof INT32 = 4"
| "sizeof INT64 = 8"
| "sizeof FLOAT = 4"
| "sizeof DOUBLE = 8"
| "sizeof LONG_DOUBLE = 16"

definition ALIGNMENT_LONG_DOUBLE :: nat where
  "ALIGNMENT_LONG_DOUBLE = 8"

fun align_of :: "prim \<Rightarrow> nat" where
  "align_of LONG_DOUBLE = ALIGNMENT_LONG_DOUBLE"
| "align_of t = sizeof t"

text \<open>
  The number of bytes the byte-swapping branch of a deserialize method reads. For
  \<open>long double\<close> the source reads \<open>dst[7]\<close> \<dots> \<open>dst[0]\<close> only.
\<close>

fun swap_read_count :: "prim \<Rightarrow> nat" where
  "swap_read_count LONG_DOUBLE = 8"
| "swap_read_count t = sizeof t"

fun prim_of :: "scalar \<Rightarrow> prim" where
  "prim_of (Int16 _) = INT16"
| "prim_of (Int32 _) = INT32"
| "prim_of (Int64 _) = INT64"
| "prim_of (Float _) = FLOAT"
| "prim_of (Double _) = DOUBLE"
| "prim_of (LongDouble _) = LONG_DOUBLE"

text \<open>The bytes of a value in the memory of the (little-endian) host, lowest address first.\<close>

definition host_bytes :: "nat \<Rightarrow> 'a::len word \<Rightarrow> byte list" where
  "host_bytes n w = map (\<lambda>i. ucast (drop_bit (8 * i) w)) [0 ..< n]"

definition host_word :: "byte list \<Rightarrow> 'a::len word" where
  "host_word bs = foldr (\<lambda>b w. ucast b OR push_bit 8 w) bs 0"

fun object_bytes :: "scalar \<Rightarrow> byte list" where
  "object_bytes (Int16 w) = host_bytes 2 w"
| "object_bytes (Int32 w) = host_bytes 4 w"
| "object_bytes (Int64 w) = host_bytes 8 w"
| "object_bytes (Float w) = host_bytes 4 w"
| "object_bytes (Double w) = host_bytes 8 w"
| "object_bytes (LongDouble w) = host_bytes 16 w"

fun object_of_bytes :: "prim \<Rightarrow> byte list \<Rightarrow> scalar" where
  "object_of_bytes INT16 bs = Int16 (host_word bs)"
| "object_of_bytes INT32 bs = Int32 (host_word bs)"
| "object_of_bytes INT64 bs = Int64 (host_word bs)"
| "object_of_bytes FLOAT bs = Float (host_word bs)"
| "object_of_bytes DOUBLE bs = Double (host_word bs)"
| "object_of_bytes LONG_DOUBLE bs = LongDouble (host_word bs)"

definition serialize :: "scalar \<Rightarrow> Cdr \<Rightarrow> unit result" where
  "serialize v c =
     (let align = alignment c (align_of (prim_of v));
          sizeAligned = sizeof (prim_of v) + align
      in case space_or_resize sizeAligned c of
           (True, c1) \<Rightarrow>
             (let c2 = makeAlign align (c1\<lparr>m_lastDataSize := sizeof (prim_of v)\<rparr>)
              in if m_swapBytes c2
                 then (Inr (), write_each (rev (object_bytes v)) c2)
                 else (Inr (), advance (sizeof (prim_of v)) (memcopy (object_bytes v) c2)))
         | (False, c1) \<Rightarrow> (Inl NotEnoughMemoryException, c1))"

text \<open>
  \<open>deserialize\<close> takes the value its output variable holds before the call: it fixes
  the overload, and the swapping branch for \<open>long double\<close> leaves its bytes 8 to 15 as
  they are.
\<close>

definition deserialize :: "scalar \<Rightarrow> Cdr \<Rightarrow> scalar result" where
  "deserialize v c =
     (let t = prim_of v;
          align = alignment c (align_of t);
          sizeAligned = sizeof t + align
      in if m_lastPosition c - m_currentPosition c \<ge> sizeAligned
         then (let c2 = makeAlign align (c\<lparr>m_lastDataSize := sizeof t\<rparr>)
               in if m_swapBytes c2
                  then (case read_each (swap_read_count t) c2 of (bs, c3) \<Rightarrow>
                          (Inr (object_of_bytes t
                                  (rev bs @ drop (swap_read_count t) (object_bytes v))), c3))
                  else (Inr (object_of_bytes t (rmemcopy (sizeof t) c2)),
                        advance (sizeof t) c2))
         else (Inl NotEnoughMemoryException, c))"

text \<open>
  The forms with an \<open>Endianness\<close> argument all have one body: save \<open>m_swapBytes\<close>, set
  it for the call, run the default form, and put the saved value back, after the call and
  in the \<open>catch\<close> block alike.
\<close>

definition with_endianness :: "Endianness \<Rightarrow> (Cdr \<Rightarrow> 'a result) \<Rightarrow> Cdr \<Rightarrow> 'a result" where
  "with_endianness endianness f c =
     (let auxSwap = m_swapBytes c;
          c0 = c\<lparr>m_swapBytes :=
                   (m_swapBytes c \<and> m_endianness c = endianness_val endianness) \<or>
                   (\<not> m_swapBytes c \<and> m_endianness c \<noteq> endianness_val endianness)\<rparr>
      in case f c0 of
           (Inr x, c1) \<Rightarrow> (Inr x, c1\<lparr>m_swapBytes := auxSwap\<rparr>)
         | (Inl ex, c1) \<Rightarrow> (Inl ex, c1\<lparr>m_swapBytes := auxSwap\<rparr>))"

definition serialize_endian :: "scalar \<Rightarrow> Endianness \<Rightarrow> Cdr \<Rightarrow> unit result" where
  "serialize_endian v endianness = with_endianness endianness (serialize v)"

definition deserialize_endian :: "scalar \<Rightarrow> Endianness \<Rightarrow> Cdr \<Rightarrow> scalar result" where
  "deserialize_endian v endianness = with_endianness endianness (deserialize v)"

text \<open>
  Modelled from the spec: the unsigned overloads and the stream operators of
  \<open>fastcdr/Cdr.h\<close>, which cast and call the signed overload of the same width
  (\<open>uint8_t\<close> goes to \<open>char\<close>).
\<close>

fun the_Int16 :: "scalar \<Rightarrow> 16 word" where
  "the_Int16 (Int16 w) = w"
| "the_Int16 _ = 0"

fun the_Int32 :: "scalar \<Rightarrow> 32 word" where
  "the_Int32 (Int32 w) = w"
| "the_Int32 _ = 0"

definition serialize_uint16 :: "16 word \<Rightarrow> Cdr \<Rightarrow> unit result" where
  "serialize_uint16 ushort_t = serialize (Int16 ushort_t)"

definition serialize_uint32 :: "32 word \<Rightarrow> Cdr \<Rightarrow> unit result" where
  "serialize_uint32 ulong_t = serialize (Int32 ulong_t)"

definition deserialize_uint16 :: "Cdr \<Rightarrow> 16 word result" where
  "deserialize_uint16 c =
     (case deserialize (Int16 0) c of
        (Inr v, c1) \<Rightarrow> (Inr (the_Int16 v), c1)
      | (Inl ex, c1) \<Rightarrow> (Inl ex, c1))"

definition deserialize_uint32 :: "Cdr \<Rightarrow> 32 word result" where
  "deserialize_uint32 c =
     (case deserialize (Int32 0) c of
        (Inr v, c1) \<Rightarrow> (Inr (the_Int32 v), c1)
      | (Inl ex, c1) \<Rightarrow> (Inl ex, c1))"

section \<open>Strings\<close>

text \<open>
  A \<open>const char *\<close> argument is \<open>None\<close> for the null pointer and otherwise the bytes of
  the memory it points to. \<open>strlen\<close> counts the bytes before the first zero byte (and
  the whole list when it has none). The 32-bit length of the source wraps around, so it
  is a \<open>32 word\<close>.
\<close>

definition strlen :: "byte list \<Rightarrow> nat" where
  "strlen s = length (takeWhile (\<lambda>b. b \<noteq> 0) s)"

text \<open>
  The length the two \<open>serialize\<close> methods for strings compute first: 0 for the null
  pointer, else \<open>(uint32_t)strlen(string_t) + 1\<close>, or \<open>(uint32_t)str_length + 1\<close> when
  the caller gives the length. \<open>pointee\<close> is the memory \<open>string_t\<close> points to.
\<close>

definition string_length :: "byte list option \<Rightarrow> 32 word" where
  "string_length string_t =
     (case string_t of None \<Rightarrow> 0 | Some mem \<Rightarrow> word_of_nat (strlen mem) + 1)"

definition string_length_given :: "byte list option \<Rightarrow> nat \<Rightarrow> 32 word" where
  "string_length_given string_t str_length =
     (case string_t of None \<Rightarrow> 0 | Some mem \<Rightarrow> word_of_nat str_length + 1)"

definition pointee :: "byte list option \<Rightarrow> byte list" where
  "pointee string_t = (case string_t of None \<Rightarrow> [] | Some mem \<Rightarrow> mem)"

text \<open>
  The part the two methods share, from \<open>if(length > 0)\<close> on: \<open>mem\<close> is the memory
  \<open>string_t\<close> points to.
\<close>

definition serialize_string_body :: "32 word \<Rightarrow> byte list \<Rightarrow> Cdr \<Rightarrow> unit result" where
  "serialize_string_body len mem c =
     (if len > 0
      then (let st = getState c
            in case serialize_uint32 len c of
                 (Inl ex, c1) \<Rightarrow> (Inl ex, c1)
               | (Inr _, c1) \<Rightarrow>
                   (case space_or_resize (unat len) c1 of
                      (True, c2) \<Rightarrow>
                        (Inr (), advance (unat len)
                                   (memcopy (load 0 (unat len) mem) (c2\<lparr>m_lastDataSize := 1\<rparr>)))
                    | (False, c2) \<Rightarrow> (Inl NotEnoughMemoryException, setState st c2)))
      else serialize_uint32 len c)"

definition serialize_string :: "byte list option \<Rightarrow> Cdr \<Rightarrow> unit result" where
  "serialize_string string_t c =
     serialize_string_body (string_length string_t) (pointee string_t) c"

definition serialize_string_len :: "byte list option \<Rightarrow> nat \<Rightarrow> Cdr \<Rightarrow> unit result" where
  "serialize_string_len string_t str_length c =
     serialize_string_body (string_length_given string_t str_length) (pointee string_t) c"

definition serialize_string_endian ::
  "byte list option \<Rightarrow> Endianness \<Rightarrow> Cdr \<Rightarrow> unit result" where
  "serialize_string_endian string_t endianness =
     with_endianness endianness (serialize_string string_t)"

definition serialize_string_len_endian ::
  "byte list option \<Rightarrow> nat \<Rightarrow> Endianness \<Rightarrow> Cdr \<Rightarrow> unit result" where
  "serialize_string_len_endian string_t len endianness =
     with_endianness endianness (serialize_string_len string_t len)"

text \<open>
  \<open>deserialize(char *&)\<close> gives \<open>None\<close> for \<open>NULL\<close> and otherwise the block it
  allocates: \<open>calloc\<close> of \<open>length\<close> bytes, one more when the last byte read is not
  zero, with the \<open>length\<close> bytes copied in.
\<close>

definition deserialize_string :: "Cdr \<Rightarrow> byte list option result" where
  "deserialize_string c =
     (let st = getState c
      in case deserialize_uint32 c of
           (Inl ex, c1) \<Rightarrow> (Inl ex, c1)
         | (Inr len, c1) \<Rightarrow>
             if len = 0 then (Inr None, c1)
             else if m_lastPosition c1 - m_currentPosition c1 \<ge> unat len
             then (let c2 = c1\<lparr>m_lastDataSize := 1\<rparr>;
                       bs = rmemcopy (unat len) c2
                   in (Inr (Some (bs @ (if last bs = 0 then [] else [0]))),
                       advance (unat len) c2))
             else (Inl NotEnoughMemoryException, setState st c1))"

definition deserialize_string_endian :: "Endianness \<Rightarrow> Cdr \<Rightarrow> byte list option result" where
  "deserialize_string_endian endianness = with_endianness endianness deserialize_string"

text \<open>
  \<open>readString\<close> returns a pointer and sets \<open>length\<close>: the pointer is the literal
  \<open>""\<close> or a position in the buffer.
\<close>

datatype char_ptr = EmptyLiteral | InBuffer nat

definition readString :: "Cdr \<Rightarrow> (char_ptr \<times> 32 word) result" where
  "readString c =
     (let st = getState c
      in case deserialize_uint32 c of
           (Inl ex, c1) \<Rightarrow> (Inl ex, c1)
         | (Inr len, c1) \<Rightarrow>
             if len = 0 then (Inr (EmptyLiteral, len), c1)
             else if m_lastPosition c1 - m_currentPosition c1 \<ge> unat len
             then (let c2 = c1\<lparr>m_lastDataSize := 1\<rparr>;
                       returnedValue = m_currentPosition c2;
                       c3 = advance (unat len) c2
                   in (Inr (InBuffer returnedValue,
                            if last (load returnedValue (unat len) (m_buffer (m_cdrBuffer c3))) = 0
                            then len - 1 else len), c3))
             else (Inl NotEnoughMemoryException, setState st c1))"

section \<open>Arrays\<close>

text \<open>
  An array argument is the memory it points to, with the number of elements beside it.
  The caller owes \<open>numElements\<close> elements there; past the end of what is given
  \<open>load\<close> reads zeros and an assignment to an element is dropped.
\<close>

definition bool_byte :: "bool \<Rightarrow> byte" where
  "bool_byte b = (if b then 1 else 0)"

definition serializeArray_bool :: "bool list \<Rightarrow> nat \<Rightarrow> Cdr \<Rightarrow> unit result" where
  "serializeArray_bool bool_t numElements c =
     (let totalSize = 1 * numElements
      in case space_or_resize totalSize c of
           (True, c1) \<Rightarrow>
             (Inr (), write_each (map bool_byte (take numElements bool_t))
                        (c1\<lparr>m_lastDataSize := 1\<rparr>))
         | (False, c1) \<Rightarrow> (Inl NotEnoughMemoryException, c1))"

definition serializeArray_char :: "byte list \<Rightarrow> nat \<Rightarrow> Cdr \<Rightarrow> unit result" where
  "serializeArray_char char_t numElements c =
     (let totalSize = 1 * numElements
      in case space_or_resize totalSize c of
           (True, c1) \<Rightarrow>
             (Inr (), advance totalSize
                        (memcopy (load 0 totalSize char_t) (c1\<lparr>m_lastDataSize := 1\<rparr>)))
         | (False, c1) \<Rightarrow> (Inl NotEnoughMemoryException, c1))"

text \<open>
  The arrays of the wider primitives. \<open>sizeof(*p) * numElements\<close> is a \<open>size_t\<close>
  product and wraps at \<open>2 ^ 64\<close>. In the swapping branch the source takes
  \<open>reinterpret_cast<const char*>(&short_t)\<close>, the address of the pointer variable and
  not of the elements: \<open>ptr_mem\<close> is the memory from that address on, \<open>mem\<close> the
  memory of the elements.
\<close>

definition size_t_mult :: "nat \<Rightarrow> nat \<Rightarrow> nat" where
  "size_t_mult a b = (a * b) mod 2 ^ 64"

definition swapped_elements :: "nat \<Rightarrow> nat \<Rightarrow> byte list \<Rightarrow> byte list" where
  "swapped_elements sz totalSize ptr_mem =
     concat (map (\<lambda>k. rev (load (k * sz) sz ptr_mem)) [0 ..< totalSize div sz])"

definition serializeArray :: "prim \<Rightarrow> byte list \<Rightarrow> byte list \<Rightarrow> nat \<Rightarrow> Cdr \<Rightarrow> unit result" where
  "serializeArray t mem ptr_mem numElements c =
     (if numElements = 0 then (Inr (), c)
      else
        (let align = alignment c (align_of t);
             totalSize = size_t_mult (sizeof t) numElements;
             sizeAligned = totalSize + align
         in case space_or_resize sizeAligned c of
              (True, c1) \<Rightarrow>
                (let c2 = c1\<lparr>m_lastDataSize := sizeof t\<rparr>;
                     c3 = (if numElements \<noteq> 0 then makeAlign align c2 else c2)
                 in if m_swapBytes c3
                    then (Inr (), write_each (swapped_elements (sizeof t) totalSize ptr_mem) c3)
                    else (Inr (), advance totalSize (memcopy (load 0 totalSize mem) c3)))
            | (False, c1) \<Rightarrow> (Inl NotEnoughMemoryException, c1)))"


text \<open>
  Wide characters go one by one through \<open>serialize(wchar_t)\<close>, which
  \<open>fastcdr/Cdr.h\<close> sends to the 32-bit overload (modelled from the spec: each wide
  character is a 32-bit code unit). An exception of an element ends the loop.
\<close>

fun serialize_each_wchar :: "32 word list \<Rightarrow> Cdr \<Rightarrow> unit result" where
  "serialize_each_wchar [] c = (Inr (), c)"
| "serialize_each_wchar (w # ws) c =
     (case serialize_uint32 w c of
        (Inr _, c1) \<Rightarrow> serialize_each_wchar ws c1
      | (Inl ex, c1) \<Rightarrow> (Inl ex, c1))"

definition serializeArray_wchar :: "32 word list \<Rightarrow> nat \<Rightarrow> Cdr \<Rightarrow> unit result" where
  "serializeArray_wchar wchar numElements c =
     (if numElements = 0 then (Inr (), c)
      else serialize_each_wchar
             (map (\<lambda>i. if i < length wchar then wchar ! i else 0) [0 ..< numElements]) c)"


text \<open>
  \<open>deserializeArray(bool *, size_t)\<close>: the loop, from element \<open>count\<close> on with
  \<open>k\<close> elements to go. A byte that is neither 1 nor 0 leaves the element as it is and
  the loop goes on.
\<close>

fun deserializeArray_bool_loop :: "nat \<Rightarrow> nat \<Rightarrow> bool list \<Rightarrow> Cdr \<Rightarrow> bool list \<times> Cdr" where
  "deserializeArray_bool_loop count 0 bool_t c = (bool_t, c)"
| "deserializeArray_bool_loop count (Suc k) bool_t c =
     (case read_byte c of (v, c1) \<Rightarrow>
        if v = 1 then deserializeArray_bool_loop (Suc count) k (bool_t[count := True]) c1
        else if v = 0 then deserializeArray_bool_loop (Suc count) k (bool_t[count := False]) c1
        else deserializeArray_bool_loop (Suc count) k bool_t c1)"

definition deserializeArray_bool :: "bool list \<Rightarrow> nat \<Rightarrow> Cdr \<Rightarrow> bool list result" where
  "deserializeArray_bool bool_t numElements c =
     (let totalSize = 1 * numElements
      in if m_lastPosition c - m_currentPosition c \<ge> totalSize
         then (case deserializeArray_bool_loop 0 numElements bool_t (c\<lparr>m_lastDataSize := 1\<rparr>) of
                 (bool_t', c1) \<Rightarrow> (Inr bool_t', c1))
         else (Inl NotEnoughMemoryException, c))"

definition deserializeArray_char :: "nat \<Rightarrow> Cdr \<Rightarrow> byte list result" where
  "deserializeArray_char numElements c =
     (let totalSize = 1 * numElements
      in if m_lastPosition c - m_currentPosition c \<ge> totalSize
         then (let c1 = c\<lparr>m_lastDataSize := 1\<rparr>
               in (Inr (rmemcopy totalSize c1), advance totalSize c1))
         else (Inl NotEnoughMemoryException, c))"

text \<open>
  The result of \<open>deserializeArray\<close> for the wider primitives is the memory of the
  elements and the memory at the pointer variable, as the call leaves them: the swapping
  branch writes to the second, element \<open>k\<close> at \<open>k * sizeof\<close>, and reads
  \<open>swap_read_count\<close> bytes for each.
\<close>

fun store_swapped :: "nat \<Rightarrow> nat \<Rightarrow> nat \<Rightarrow> nat \<Rightarrow> byte list \<Rightarrow> Cdr \<Rightarrow> byte list \<times> Cdr" where
  "store_swapped sz n k 0 ptr_mem c = (ptr_mem, c)"
| "store_swapped sz n k (Suc j) ptr_mem c =
     (case read_each n c of (bs, c1) \<Rightarrow>
        store_swapped sz n (Suc k) j (store (k * sz) (rev bs) ptr_mem) c1)"

definition deserializeArray ::
  "prim \<Rightarrow> byte list \<Rightarrow> byte list \<Rightarrow> nat \<Rightarrow> Cdr \<Rightarrow> (byte list \<times> byte list) result" where
  "deserializeArray t mem ptr_mem numElements c =
     (if numElements = 0 then (Inr (mem, ptr_mem), c)
      else
        (let align = alignment c (align_of t);
             totalSize = size_t_mult (sizeof t) numElements;
             sizeAligned = totalSize + align
         in if m_lastPosition c - m_currentPosition c \<ge> sizeAligned
            then (let c2 = c\<lparr>m_lastDataSize := sizeof t\<rparr>;
                      c3 = (if numElements \<noteq> 0 then makeAlign align c2 else c2)
                  in if m_swapBytes c3
                     then (case store_swapped (sizeof t) (swap_read_count t) 0
                                  (totalSize div sizeof t) ptr_mem c3 of
                             (ptr_mem', c4) \<Rightarrow> (Inr (mem, ptr_mem'), c4))
                     else (Inr (store 0 (rmemcopy totalSize c3) mem, ptr_mem),
                           advance totalSize c3))
            else (Inl NotEnoughMemoryException, c)))"


fun deserialize_each_wchar :: "nat \<Rightarrow> nat \<Rightarrow> 32 word list \<Rightarrow> Cdr \<Rightarrow> (32 word list) result" where
  "deserialize_each_wchar count 0 wchar c = (Inr wchar, c)"
| "deserialize_each_wchar count (Suc k) wchar c =
     (case deserialize_uint32 c of
        (Inr v, c1) \<Rightarrow> deserialize_each_wchar (Suc count) k (wchar[count := v]) c1
      | (Inl ex, c1) \<Rightarrow> (Inl ex, c1))"

definition deserializeArray_wchar :: "32 word list \<Rightarrow> nat \<Rightarrow> Cdr \<Rightarrow> (32 word list) result" where
  "deserializeArray_wchar wchar numElements c =
     (if numElements = 0 then (Inr wchar, c)
      else deserialize_each_wchar 0 numElements wchar c)"


section \<open>Sequences of booleans\<close>


text \<open>
  \<open>deserializeBoolSequence\<close> writes to the vector of its caller, which keeps what was
  written when the method throws: the result is the outcome, the vector and the codec.
  \<open>vector_resize\<close> is \<open>std::vector<bool>::resize\<close>: it cuts the vector or fills it
  up with \<open>false\<close>.
\<close>

definition vector_resize :: "nat \<Rightarrow> bool list \<Rightarrow> bool list" where
  "vector_resize n v = take n v @ replicate (n - length v) False"

fun deserializeBoolSequence_loop ::
  "nat \<Rightarrow> nat \<Rightarrow> bool list \<Rightarrow> Cdr \<Rightarrow> (Exception + unit) \<times> bool list \<times> Cdr" where
  "deserializeBoolSequence_loop count 0 vector_t c = (Inr (), vector_t, c)"
| "deserializeBoolSequence_loop count (Suc k) vector_t c =
     (case read_byte c of (v, c1) \<Rightarrow>
        if v = 1 then deserializeBoolSequence_loop (Suc count) k (vector_t[count := True]) c1
        else if v = 0 then deserializeBoolSequence_loop (Suc count) k (vector_t[count := False]) c1
        else (Inl BadParamException, vector_t, c1))"

definition deserializeBoolSequence ::
  "bool list \<Rightarrow> Cdr \<Rightarrow> (Exception + unit) \<times> bool list \<times> Cdr" where
  "deserializeBoolSequence vector_t c =
     (let st = getState c
      in case deserialize_uint32 c of
           (Inl ex, c1) \<Rightarrow> (Inl ex, vector_t, c1)
         | (Inr seqLength, c1) \<Rightarrow>
             (let vector_t1 = vector_resize (unat seqLength) vector_t;
                  totalSize = unat seqLength * 1
              in if m_lastPosition c1 - m_currentPosition c1 \<ge> totalSize
                 then deserializeBoolSequence_loop 0 (unat seqLength) vector_t1
                        (c1\<lparr>m_lastDataSize := 1\<rparr>)
                 else (Inl NotEnoughMemoryException, vector_t1, setState st c1)))"

section \<open>Sequences of strings\<close>



section \<open>The encapsulation header\<close>

text \<open>
  The end of \<open>read_encapsulation\<close>, from the second \<open>try\<close> block on: \<open>st\<close> is the
  snapshot taken at the start of the method.
\<close>

definition read_encapsulation_options :: "state \<Rightarrow> Cdr \<Rightarrow> unit result" where
  "read_encapsulation_options st c =
     (if m_cdrType c = DDS_CDR
      then (case deserialize_uint16 c of
              (Inl ex, c1) \<Rightarrow> (Inl ex, setState st c1)
            | (Inr v, c1) \<Rightarrow> (Inr (), resetAlignment (c1\<lparr>m_options := v\<rparr>)))
      else (Inr (), resetAlignment c))"

definition read_encapsulation :: "Cdr \<Rightarrow> unit result" where
  "read_encapsulation c =
     (let st = getState c
      in case (if m_cdrType c = DDS_CDR then deserialize_char c else (Inr 0, c)) of
           (Inl ex, c1) \<Rightarrow> (Inl ex, setState st c1)
         | (Inr dummy, c1) \<Rightarrow>
             (case deserialize_char c1 of
                (Inl ex, c2) \<Rightarrow> (Inl ex, setState st c2)
              | (Inr encapsulationKind, c2) \<Rightarrow>
                  (let c3 = (if m_endianness c2 \<noteq> (encapsulationKind AND 1)
                             then c2\<lparr>m_swapBytes := \<not> m_swapBytes c2,
                                     m_endianness := encapsulationKind AND 1\<rparr>
                             else c2)
                   in if (encapsulationKind AND plFlag_val DDS_CDR_WITH_PL) \<noteq> 0
                      then (if m_cdrType c3 = DDS_CDR
                            then read_encapsulation_options st (c3\<lparr>m_plFlag := DDS_CDR_WITH_PL\<rparr>)
                            else (Inl BadParamException, c3))
                      else read_encapsulation_options st c3)))"

definition serialize_encapsulation :: "Cdr \<Rightarrow> unit result" where
  "serialize_encapsulation c =
     (let st = getState c
      in case (if m_cdrType c = DDS_CDR then serialize_char 0 c else (Inr (), c)) of
           (Inl ex, c1) \<Rightarrow> (Inl ex, setState st c1)
         | (Inr _, c1) \<Rightarrow>
             (let encapsulationKind = plFlag_val (m_plFlag c1) OR m_endianness c1
              in case serialize_char encapsulationKind c1 of
                   (Inl ex, c2) \<Rightarrow> (Inl ex, setState st c2)
                 | (Inr _, c2) \<Rightarrow>
                     if m_cdrType c2 = DDS_CDR
                     then (case serialize_uint16 (m_options c2) c2 of
                             (Inl ex, c3) \<Rightarrow> (Inl ex, setState st c3)
                           | (Inr _, c3) \<Rightarrow> (Inr (), resetAlignment c3))
                     else (Inr (), resetAlignment c2)))"

section \<open>States and predicates the statements use\<close>





text \<open>The C string \<open>"hi"\<close> in memory: two characters and the terminator.\<close>

definition hi :: "byte list" where
  "hi = [0x68, 0x69, 0]"

text \<open>
  Plain-CDR little-endian codecs over buffers that do not grow: over the one byte
  \<open>02\<close>; over a header whose kind byte has the PL bit; over a sequence length of 3
  followed by one byte; and over 2, 4 and 7 zero bytes.
\<close>

definition st_bool2 :: Cdr where
  "st_bool2 = Cdr_new \<lparr>m_buffer = [2], m_maxSize = 1\<rparr> LITTLE_ENDIANNESS CORBA_CDR"

definition st_pl_plain :: Cdr where
  "st_pl_plain =
     Cdr_new \<lparr>m_buffer = [2, 0, 0, 0], m_maxSize = 4\<rparr> LITTLE_ENDIANNESS CORBA_CDR"

definition st_seq3 :: Cdr where
  "st_seq3 =
     Cdr_new \<lparr>m_buffer = [3, 0, 0, 0, 1], m_maxSize = 5\<rparr> LITTLE_ENDIANNESS CORBA_CDR"



definition st_room2 :: Cdr where
  "st_room2 = Cdr_new \<lparr>m_buffer = [0, 0], m_maxSize = 2\<rparr> LITTLE_ENDIANNESS CORBA_CDR"

definition st_room4 :: Cdr where
  "st_room4 =
     Cdr_new \<lparr>m_buffer = [0, 0, 0, 0], m_maxSize = 4\<rparr> LITTLE_ENDIANNESS CORBA_CDR"

definition st_room7 :: Cdr where
  "st_room7 =
     Cdr_new \<lparr>m_buffer = [0, 0, 0, 0, 0, 0, 0], m_maxSize = 7\<rparr> LITTLE_ENDIANNESS CORBA_CDR"

text \<open>The codec \<open>st_room4\<close> after \<open>serialize(int32_t 7)\<close>: its last data size is 4.\<close>

definition st_after_int32 :: Cdr where
  "st_after_int32 = snd (serialize (Int32 7) st_room4)"

text \<open>
  A DDS-CDR little-endian codec with the PL flag and the options \<open>0xBEEF\<close> over six
  zero bytes, and the same codec with the header written.
\<close>

definition st_dds_pl :: Cdr where
  "st_dds_pl =
     setDDSCdrOptions 0xBEEF
       (setDDSCdrPlFlag DDS_CDR_WITH_PL
          (Cdr_new \<lparr>m_buffer = [0, 0, 0, 0, 0, 0], m_maxSize = 6\<rparr> LITTLE_ENDIANNESS DDS_CDR))"

definition st_dds_pl_header :: Cdr where
  "st_dds_pl_header =
     st_dds_pl\<lparr>m_cdrBuffer := \<lparr>m_buffer = [0x00, 0x03, 0xEF, 0xBE, 0, 0], m_maxSize = 6\<rparr>,
               m_lastDataSize := 2, m_currentPosition := 4, m_alignPosition := 4\<rparr>"

section \<open>Auxiliary facts\<close>

lemmas cursor_defs = Cdr_new_def DEFAULT_ENDIAN_def Cdr_inv_def getState_def setState_def
  space_or_resize_def alignment_def makeAlign_def resetAlignment_def memcopy_def rmemcopy_def
  advance_def write_byte_def read_byte_def next_byte_def Let_def

lemmas run_defs = cursor_defs resize_def FastBuffer_resize_def store_def load_def upt_rec

lemmas string_defs = serialize_string_def serialize_string_body_def string_length_def
  string_length_given_def pointee_def strlen_def serialize_uint32_def serialize_def
  deserialize_string_def deserialize_uint32_def deserialize_def readString_def
  host_bytes_def host_word_def

lemma replicate_2: "replicate 2 x = [x, x]"
  by (simp add: numeral_2_eq_2)

lemma host_bytes_3: "host_bytes 4 (3 :: 32 word) = [3, 0, 0, 0]"
  by (simp add: host_bytes_def upt_rec)

lemma host_bytes_BEEF: "host_bytes 2 (0xBEEF :: 16 word) = [0xEF, 0xBE]"
  by (simp add: host_bytes_def upt_rec)

lemma host_bytes_1234: "host_bytes 2 (0x1234 :: 16 word) = [0x34, 0x12]"
  by (simp add: host_bytes_def upt_rec)


subsection \<open>What writing and reading bytes leaves alone\<close>

lemma write_each_fields:
  "m_swapBytes (write_each bs c) = m_swapBytes c"
  "m_alignPosition (write_each bs c) = m_alignPosition c"
  "m_lastDataSize (write_each bs c) = m_lastDataSize c"
  "m_endianness (write_each bs c) = m_endianness c"
  "m_plFlag (write_each bs c) = m_plFlag c"
  "m_options (write_each bs c) = m_options c"
  "m_cdrType (write_each bs c) = m_cdrType c"
  "m_lastPosition (write_each bs c) = m_lastPosition c"
  "m_currentPosition (write_each bs c) = m_currentPosition c + length bs"
  by (induction bs arbitrary: c; simp add: write_byte_def advance_def memcopy_def)+

lemma read_each_eq: "read_each n c = (bs, c1) \<Longrightarrow> c1 = advance n c"
proof (induction n arbitrary: c bs c1)
  case 0
  then show ?case by (simp add: advance_def)
next
  case (Suc n)
  obtain bs' c' where r: "read_each n (advance 1 c) = (bs', c')"
    by (cases "read_each n (advance 1 c)")
  from Suc.IH[OF r] have "c' = advance n (advance 1 c)" .
  with Suc.prems r show ?case
    by (simp add: read_byte_def advance_def)
qed


lemma space_or_resize_fields:
  assumes "space_or_resize n c = (ok, c1)"
  shows "getState c1 = getState c" "m_endianness c1 = m_endianness c"
    "m_plFlag c1 = m_plFlag c" "m_options c1 = m_options c" "m_cdrType c1 = m_cdrType c"
    "m_swapBytes c1 = m_swapBytes c" "m_alignPosition c1 = m_alignPosition c"
    "m_currentPosition c1 = m_currentPosition c" "m_lastDataSize c1 = m_lastDataSize c"
  using assms
  by (auto simp: space_or_resize_def resize_def getState_def split: if_splits option.splits)

subsection \<open>The primitives\<close>


lemma serialize_fields:
  "m_swapBytes (snd (serialize v c)) = m_swapBytes c"
  "m_alignPosition (snd (serialize v c)) = m_alignPosition c"
  "m_endianness (snd (serialize v c)) = m_endianness c"
  "m_plFlag (snd (serialize v c)) = m_plFlag c"
  "m_options (snd (serialize v c)) = m_options c"
  "m_cdrType (snd (serialize v c)) = m_cdrType c"
  by (auto simp: serialize_def Let_def write_each_fields makeAlign_def advance_def memcopy_def
      split: prod.splits bool.splits dest: space_or_resize_fields)

lemma serialize_Inr:
  assumes "fst (serialize v c) = Inr u"
  shows "m_lastDataSize (snd (serialize v c)) = sizeof (prim_of v)"
  using assms
  by (auto simp: serialize_def Let_def write_each_fields makeAlign_def advance_def memcopy_def
      split: prod.splits bool.splits if_splits)

lemma deserialize_Inl:
  assumes "fst (deserialize v c) = Inl ex"
  shows "ex = NotEnoughMemoryException" "snd (deserialize v c) = c"
  using assms
  by (auto simp: deserialize_def Let_def split: prod.splits if_splits)

lemma deserialize_fields:
  "m_swapBytes (snd (deserialize v c)) = m_swapBytes c"
  "m_alignPosition (snd (deserialize v c)) = m_alignPosition c"
  "m_endianness (snd (deserialize v c)) = m_endianness c"
  "m_plFlag (snd (deserialize v c)) = m_plFlag c"
  "m_options (snd (deserialize v c)) = m_options c"
  "m_cdrType (snd (deserialize v c)) = m_cdrType c"
  "m_lastPosition (snd (deserialize v c)) = m_lastPosition c"
  "m_cdrBuffer (snd (deserialize v c)) = m_cdrBuffer c"
  by (auto simp: deserialize_def Let_def makeAlign_def advance_def
      split: prod.splits if_splits dest!: read_each_eq)

lemma deserialize_Inr:
  assumes "fst (deserialize v c) = Inr u"
  shows "m_lastDataSize (snd (deserialize v c)) = sizeof (prim_of v)"
  using assms
  by (auto simp: deserialize_def Let_def makeAlign_def advance_def
      split: prod.splits if_splits dest!: read_each_eq)



lemma deserialize_uint16_Inl: "deserialize_uint16 c = (Inl ex, c1) \<Longrightarrow> c1 = c"
  using deserialize_Inl(2)[of "Int16 0" c ex]
  by (auto simp: deserialize_uint16_def split: prod.splits sum.splits)

subsection \<open>The forms with a byte-order argument\<close>

lemma with_endianness_fst:
  "fst (with_endianness e f c) =
     fst (f (c\<lparr>m_swapBytes := (m_swapBytes c \<and> m_endianness c = endianness_val e) \<or>
                                (\<not> m_swapBytes c \<and> m_endianness c \<noteq> endianness_val e)\<rparr>))"
  by (simp add: with_endianness_def Let_def split: prod.splits sum.splits)

lemma with_endianness_snd:
  "snd (with_endianness e f c) =
     (snd (f (c\<lparr>m_swapBytes := (m_swapBytes c \<and> m_endianness c = endianness_val e) \<or>
                                 (\<not> m_swapBytes c \<and> m_endianness c \<noteq> endianness_val e)\<rparr>)))
       \<lparr>m_swapBytes := m_swapBytes c\<rparr>"
  by (simp add: with_endianness_def Let_def split: prod.splits sum.splits)

lemma with_endianness_lastDataSize:
  "m_lastDataSize (snd (with_endianness e f c)) =
     m_lastDataSize
       (snd (f (c\<lparr>m_swapBytes := (m_swapBytes c \<and> m_endianness c = endianness_val e) \<or>
                                   (\<not> m_swapBytes c \<and> m_endianness c \<noteq> endianness_val e)\<rparr>)))"
  by (simp add: with_endianness_snd)




subsection \<open>Errors, operation by operation\<close>

























lemma deserializeBoolSequence_loop_length:
  "length (fst (snd (deserializeBoolSequence_loop count k v c))) = length v"
  by (induction count k v c rule: deserializeBoolSequence_loop.induct)
     (auto split: prod.splits)







subsection \<open>The last data size after a string\<close>

lemma serialize_string_body_lastDataSize:
  assumes "fst (serialize_string_body len mem c) = Inr u"
  shows "m_lastDataSize (snd (serialize_string_body len mem c)) = (if len = 0 then 4 else 1)"
proof (cases "len = 0")
  case True
  with assms serialize_Inr[of "Int32 0" c u] show ?thesis
    by (simp add: serialize_string_body_def serialize_uint32_def)
next
  case False
  then have pos: "0 < len"
    by (simp add: word_greater_zero_iff)
  obtain r c1 where s: "serialize_uint32 len c = (r, c1)"
    by (cases "serialize_uint32 len c")
  obtain ok c2 where g: "space_or_resize (unat len) c1 = (ok, c2)"
    by (cases "space_or_resize (unat len) c1")
  from assms pos s g False show ?thesis
    by (auto simp: serialize_string_body_def Let_def advance_def memcopy_def
        split: sum.splits bool.splits)
qed

lemma deserialize_string_lastDataSize:
  assumes "fst (deserialize_string c) = Inr r"
  shows "m_lastDataSize (snd (deserialize_string c)) = (if r = None then 4 else 1)"
proof -
  obtain x c1 where d: "deserialize (Int32 0) c = (x, c1)"
    by (cases "deserialize (Int32 0) c")
  from deserialize_Inr[of "Int32 0" c] d
  have "\<And>u. x = Inr u \<Longrightarrow> m_lastDataSize c1 = 4"
    by simp
  with assms d show ?thesis
    by (auto simp: deserialize_string_def deserialize_uint32_def Let_def advance_def
        split: sum.splits if_splits)
qed

lemma readString_lastDataSize:
  assumes "fst (readString c) = Inr (p, n)"
  shows "m_lastDataSize (snd (readString c)) = (if p = EmptyLiteral then 4 else 1)"
proof -
  obtain x c1 where d: "deserialize (Int32 0) c = (x, c1)"
    by (cases "deserialize (Int32 0) c")
  from deserialize_Inr[of "Int32 0" c] d
  have "\<And>u. x = Inr u \<Longrightarrow> m_lastDataSize c1 = 4"
    by simp
  with assms d show ?thesis
    by (auto simp: readString_def deserialize_uint32_def Let_def advance_def
        split: sum.splits if_splits)
qed

subsection \<open>Arrays of no elements, and boolean arrays\<close>

lemma empty_array_wide:
  "serializeArray t mem ptr_mem 0 c = (Inr (), c)"
  "deserializeArray t mem ptr_mem 0 c = (Inr (mem, ptr_mem), c)"
  "serializeArray_wchar ws 0 c = (Inr (), c)"
  "deserializeArray_wchar ws 0 c = (Inr ws, c)"
  by (simp_all add: serializeArray_def deserializeArray_def serializeArray_wchar_def
      deserializeArray_wchar_def)

lemma empty_array_byte:
  "serializeArray_bool bs 0 c = (Inr (), c\<lparr>m_lastDataSize := 1\<rparr>)"
  "serializeArray_char cs 0 c = (Inr (), c\<lparr>m_lastDataSize := 1\<rparr>)"
  "deserializeArray_bool bs 0 c = (Inr bs, c\<lparr>m_lastDataSize := 1\<rparr>)"
  "deserializeArray_char 0 c = (Inr [], c\<lparr>m_lastDataSize := 1\<rparr>)"
  by (simp_all add: serializeArray_bool_def serializeArray_char_def deserializeArray_bool_def
      deserializeArray_char_def space_or_resize_def store_def load_def memcopy_def
      rmemcopy_def advance_def)

lemma deserializeArray_bool_never_BadParam:
  "fst (deserializeArray_bool bool_t n c) \<noteq> Inl BadParamException"
  by (simp add: deserializeArray_bool_def Let_def split: prod.splits)

subsection \<open>The encapsulation header\<close>

lemma read_encapsulation_plain_pl:
  assumes "m_cdrType c = CORBA_CDR" and "m_currentPosition c < m_lastPosition c"
    and "next_byte c AND 2 \<noteq> 0"
  shows "fst (read_encapsulation c) = Inl BadParamException"
    and "m_currentPosition (snd (read_encapsulation c)) = m_currentPosition c + 1"
    and "m_lastDataSize (snd (read_encapsulation c)) = 1"
  using assms
  by (auto simp: read_encapsulation_def deserialize_char_def read_byte_def next_byte_def
      rmemcopy_def advance_def Let_def)

lemma serialize_encapsulation_st_dds_pl:
  "serialize_encapsulation st_dds_pl = (Inr (), st_dds_pl_header)"
  by (simp add: st_dds_pl_header_def st_dds_pl_def setDDSCdrOptions_def setDDSCdrPlFlag_def
      serialize_encapsulation_def serialize_char_def serialize_uint16_def serialize_def
      host_bytes_BEEF run_defs)

lemma serialize_int16_st_dds_pl_header:
  "serialize (Int16 0x1234) st_dds_pl_header =
     (Inr (), st_dds_pl_header
        \<lparr>m_cdrBuffer := \<lparr>m_buffer = [0x00, 0x03, 0xEF, 0xBE, 0x34, 0x12], m_maxSize = 6\<rparr>,
         m_currentPosition := 6\<rparr>)"
  by (simp add: st_dds_pl_header_def st_dds_pl_def setDDSCdrOptions_def setDDSCdrPlFlag_def
      serialize_def host_bytes_1234 run_defs)

section \<open>Rollback on failure (C1)\<close>




section \<open>Boolean deserialization (C2)\<close>

text \<open>
  Claim C2, as amended. In every state of the codec in which a byte is left to read and
  that byte is neither 0 nor 1, \<open>deserialize(bool&)\<close> throws the bad-parameter
  exception, and the data cursor is one byte further than before the call: the byte has
  been consumed when its value is checked.
\<close>

theorem deserialize_bool_bad_byte:
  assumes "Cdr_inv c" and "m_currentPosition c < m_lastPosition c"
    and "next_byte c \<noteq> 0" and "next_byte c \<noteq> 1"
  shows "fst (deserialize_bool c) = Inl BadParamException \<and>
         m_currentPosition (snd (deserialize_bool c)) = m_currentPosition c + 1"
  using assms
  by (auto simp: deserialize_bool_def read_byte_def next_byte_def advance_def rmemcopy_def)

text \<open>The theorem at the codec over the one byte \<open>02\<close>.\<close>

theorem deserialize_bool_bad_byte_witness:
  "Cdr_inv st_bool2 \<and> m_currentPosition st_bool2 < m_lastPosition st_bool2 \<and>
   next_byte st_bool2 = 2 \<and>
   fst (deserialize_bool st_bool2) = Inl BadParamException \<and>
   m_currentPosition (snd (deserialize_bool st_bool2)) = 1"
  using deserialize_bool_bad_byte[of st_bool2]
  by (simp add: st_bool2_def run_defs)

text \<open>
  Claim C2 as the spec states it (scenario S5: the cursor is unchanged) fails on the byte
  \<open>02\<close>: the call throws bad-parameter and the cursor has moved from 0 to 1.
\<close>

theorem deserialize_bool_moves_cursor:
  "Cdr_inv st_bool2 \<and> next_byte st_bool2 = 2 \<and> m_currentPosition st_bool2 = 0 \<and>
   fst (deserialize_bool st_bool2) = Inl BadParamException \<and>
   m_currentPosition (snd (deserialize_bool st_bool2)) = 1"
  by (simp add: st_bool2_def deserialize_bool_def run_defs)

section \<open>The PL bit on a plain-CDR codec (C3)\<close>

text \<open>
  Claim C3. On a plain-CDR codec, \<open>read_encapsulation\<close> over a kind byte with the PL bit
  throws bad-parameter, as the claim says, but the snapshot taken at the start of the
  method is not put back on that path: the \<open>throw\<close> stands between the two \<open>try\<close>
  blocks whose handlers call \<open>setState\<close>. At the header \<open>02 00 00 00\<close> read by a
  little-endian codec the call leaves the cursor at 1, the swap flag toggled and the last
  data size at 1, where the snapshot before the call has 0, false and 0.
\<close>

theorem read_encapsulation_pl_plain_not_restored:
  "Cdr_inv st_pl_plain \<and>
   m_cdrType st_pl_plain = CORBA_CDR \<and> next_byte st_pl_plain AND 2 = 2 \<and>
   getState st_pl_plain =
     \<lparr>st_currentPosition = 0, st_alignPosition = 0, st_swapBytes = False, st_lastDataSize = 0\<rparr> \<and>
   fst (read_encapsulation st_pl_plain) = Inl BadParamException \<and>
   getState (snd (read_encapsulation st_pl_plain)) =
     \<lparr>st_currentPosition = 1, st_alignPosition = 0, st_swapBytes = True, st_lastDataSize = 1\<rparr>"
  by (simp add: st_pl_plain_def read_encapsulation_def deserialize_char_def run_defs)

section \<open>The forms with a byte-order argument (C4)\<close>

text \<open>
  Claim C4. For every primitive value \<open>v\<close>, every byte-order argument \<open>bo\<close> and every
  state of the codec, the codec after \<open>serialize(v, bo)\<close> and after
  \<open>deserialize(v, bo)\<close> has the byte order, the swap flag, the PL flag, the options and
  the alignment anchor it had before the call, whether the call returns or throws.
\<close>

theorem endianness_override_purity:
  assumes "Cdr_inv c"
  shows
    "m_endianness (snd (serialize_endian v bo c)) = m_endianness c \<and>
     m_swapBytes (snd (serialize_endian v bo c)) = m_swapBytes c \<and>
     m_plFlag (snd (serialize_endian v bo c)) = m_plFlag c \<and>
     m_options (snd (serialize_endian v bo c)) = m_options c \<and>
     m_alignPosition (snd (serialize_endian v bo c)) = m_alignPosition c \<and>
     m_endianness (snd (deserialize_endian v bo c)) = m_endianness c \<and>
     m_swapBytes (snd (deserialize_endian v bo c)) = m_swapBytes c \<and>
     m_plFlag (snd (deserialize_endian v bo c)) = m_plFlag c \<and>
     m_options (snd (deserialize_endian v bo c)) = m_options c \<and>
     m_alignPosition (snd (deserialize_endian v bo c)) = m_alignPosition c"
  by (simp add: serialize_endian_def deserialize_endian_def with_endianness_snd
      serialize_fields deserialize_fields)

text \<open>
  The theorem at a little-endian codec over two bytes that cannot grow (scenario S7):
  \<open>serialize(int16_t 0x1234, BIG_ENDIANNESS)\<close> returns, with \<open>12 34\<close> in the buffer,
  and the same call for an \<open>int64_t\<close> throws; the byte order and the swap flag are the
  same after both.
\<close>

theorem endianness_override_purity_witness:
  "Cdr_inv st_room2 \<and>
   m_endianness st_room2 = 1 \<and> m_swapBytes st_room2 = False \<and>
   fst (serialize_endian (Int16 0x1234) BIG_ENDIANNESS st_room2) = Inr () \<and>
   m_buffer (m_cdrBuffer (snd (serialize_endian (Int16 0x1234) BIG_ENDIANNESS st_room2)))
     = [0x12, 0x34] \<and>
   m_endianness (snd (serialize_endian (Int16 0x1234) BIG_ENDIANNESS st_room2)) = 1 \<and>
   m_swapBytes (snd (serialize_endian (Int16 0x1234) BIG_ENDIANNESS st_room2)) = False \<and>
   fst (serialize_endian (Int64 1) BIG_ENDIANNESS st_room2) = Inl NotEnoughMemoryException \<and>
   m_endianness (snd (serialize_endian (Int64 1) BIG_ENDIANNESS st_room2)) = 1 \<and>
   m_swapBytes (snd (serialize_endian (Int64 1) BIG_ENDIANNESS st_room2)) = False"
  using endianness_override_purity[of st_room2 "Int16 0x1234" BIG_ENDIANNESS]
    endianness_override_purity[of st_room2 "Int64 1" BIG_ENDIANNESS]
  by (simp add: st_room2_def serialize_endian_def with_endianness_def serialize_def
      host_bytes_def run_defs)

section \<open>Arrays of no elements (C5)\<close>

text \<open>
  Claim C5. An array operation with zero elements moves neither the cursor nor the
  anchor and writes no padding, for every element type. The last data size is another
  matter: the forms for \<open>int16_t\<close> to \<open>long double\<close> and for \<open>wchar_t\<close> return at once
  when \<open>numElements\<close> is 0 (\<open>empty_array_wide\<close>), the forms for \<open>bool\<close> and \<open>char\<close>
  have no such test and set it to 1 (\<open>empty_array_byte\<close>). After an \<open>int32_t\<close> the last
  data size is 4; an empty \<open>bool\<close> or \<open>char\<close> array, written or read, makes it 1, an
  empty \<open>int16_t\<close> array leaves it.
\<close>

theorem empty_bool_array_sets_lastDataSize:
  "Cdr_inv st_after_int32 \<and> m_lastDataSize st_after_int32 = 4 \<and>
   fst (serializeArray_bool [] 0 st_after_int32) = Inr () \<and>
   m_currentPosition (snd (serializeArray_bool [] 0 st_after_int32))
     = m_currentPosition st_after_int32 \<and>
   m_lastDataSize (snd (serializeArray_bool [] 0 st_after_int32)) = 1 \<and>
   m_lastDataSize (snd (serializeArray_char [] 0 st_after_int32)) = 1 \<and>
   m_lastDataSize (snd (deserializeArray_bool [] 0 st_after_int32)) = 1 \<and>
   m_lastDataSize (snd (deserializeArray_char 0 st_after_int32)) = 1 \<and>
   m_lastDataSize (snd (serializeArray INT16 [] [] 0 st_after_int32)) = 4"
  by (simp add: st_after_int32_def st_room4_def serialize_def serializeArray_bool_def
      serializeArray_char_def deserializeArray_bool_def deserializeArray_char_def
      serializeArray_def host_bytes_def run_defs)

section \<open>Boolean arrays (C6)\<close>

text \<open>
  Claim C6. \<open>deserializeArray(bool *, size_t)\<close> does not reject a byte that is neither
  0 nor 1: its loop has the two tests of \<open>deserialize(bool&)\<close> and of
  \<open>deserializeBoolSequence\<close> but not their \<open>throw\<close>, so it never throws bad-parameter
  (\<open>deserializeArray_bool_never_BadParam\<close>). Over the one byte \<open>02\<close> it returns, with
  the element as it was before the call and the cursor past the byte, where
  \<open>deserialize(bool&)\<close> throws.
\<close>

theorem deserializeArray_bool_accepts_bad_byte:
  "Cdr_inv st_bool2 \<and> next_byte st_bool2 = 2 \<and>
   deserializeArray_bool [True] 1 st_bool2 =
     (Inr [True], st_bool2\<lparr>m_lastDataSize := 1, m_currentPosition := 1\<rparr>) \<and>
   fst (deserialize_bool st_bool2) = Inl BadParamException"
  by (simp add: st_bool2_def deserializeArray_bool_def deserialize_bool_def run_defs)

section \<open>The last data size after a string (C7)\<close>

text \<open>
  Claim C7, as amended. After a string serialize or deserialize that returns, in the
  default form or with a byte-order argument, the last data size is 1 when the 32-bit
  length is not zero, and 4, the width of the length, when it is zero: for the null
  pointer, for a length that wraps to zero, and for a stream whose length field is zero
  (the methods then return \<open>NULL\<close> or the empty literal).
\<close>

theorem string_ops_lastDataSize:
  assumes "Cdr_inv c"
  shows
    "(fst (serialize_string string_t c) = Inr () \<longrightarrow>
        m_lastDataSize (snd (serialize_string string_t c))
          = (if string_length string_t = 0 then 4 else 1)) \<and>
     (fst (serialize_string_len string_t n c) = Inr () \<longrightarrow>
        m_lastDataSize (snd (serialize_string_len string_t n c))
          = (if string_length_given string_t n = 0 then 4 else 1)) \<and>
     (fst (serialize_string_endian string_t bo c) = Inr () \<longrightarrow>
        m_lastDataSize (snd (serialize_string_endian string_t bo c))
          = (if string_length string_t = 0 then 4 else 1)) \<and>
     (fst (serialize_string_len_endian string_t n bo c) = Inr () \<longrightarrow>
        m_lastDataSize (snd (serialize_string_len_endian string_t n bo c))
          = (if string_length_given string_t n = 0 then 4 else 1)) \<and>
     (\<forall>r. fst (deserialize_string c) = Inr r \<longrightarrow>
        m_lastDataSize (snd (deserialize_string c)) = (if r = None then 4 else 1)) \<and>
     (\<forall>r. fst (deserialize_string_endian bo c) = Inr r \<longrightarrow>
        m_lastDataSize (snd (deserialize_string_endian bo c)) = (if r = None then 4 else 1)) \<and>
     (\<forall>p len. fst (readString c) = Inr (p, len) \<longrightarrow>
        m_lastDataSize (snd (readString c)) = (if p = EmptyLiteral then 4 else 1))"
proof (intro conjI allI impI)
  show "m_lastDataSize (snd (serialize_string string_t c))
          = (if string_length string_t = 0 then 4 else 1)"
    if "fst (serialize_string string_t c) = Inr ()"
    using that serialize_string_body_lastDataSize unfolding serialize_string_def by blast
  show "m_lastDataSize (snd (serialize_string_len string_t n c))
          = (if string_length_given string_t n = 0 then 4 else 1)"
    if "fst (serialize_string_len string_t n c) = Inr ()"
    using that serialize_string_body_lastDataSize unfolding serialize_string_len_def by blast
  show "m_lastDataSize (snd (serialize_string_endian string_t bo c))
          = (if string_length string_t = 0 then 4 else 1)"
    if "fst (serialize_string_endian string_t bo c) = Inr ()"
    using that serialize_string_body_lastDataSize
    unfolding serialize_string_endian_def with_endianness_fst with_endianness_lastDataSize
      serialize_string_def by blast
  show "m_lastDataSize (snd (serialize_string_len_endian string_t n bo c))
          = (if string_length_given string_t n = 0 then 4 else 1)"
    if "fst (serialize_string_len_endian string_t n bo c) = Inr ()"
    using that serialize_string_body_lastDataSize
    unfolding serialize_string_len_endian_def with_endianness_fst with_endianness_lastDataSize
      serialize_string_len_def by blast
  show "m_lastDataSize (snd (deserialize_string c)) = (if r = None then 4 else 1)"
    if "fst (deserialize_string c) = Inr r" for r
    using that by (rule deserialize_string_lastDataSize)
  show "m_lastDataSize (snd (deserialize_string_endian bo c)) = (if r = None then 4 else 1)"
    if "fst (deserialize_string_endian bo c) = Inr r" for r
    using that deserialize_string_lastDataSize
    unfolding deserialize_string_endian_def with_endianness_fst with_endianness_lastDataSize
    by blast
  show "m_lastDataSize (snd (readString c)) = (if p = EmptyLiteral then 4 else 1)"
    if "fst (readString c) = Inr (p, len)" for p len
    using that by (rule readString_lastDataSize)
qed

text \<open>
  The theorem at a codec over seven bytes: serializing \<open>"hi"\<close> (length 3) leaves the
  last data size at 1, serializing the null pointer (length 0) leaves it at 4.
\<close>

theorem string_ops_lastDataSize_witness:
  "Cdr_inv st_room7 \<and>
   fst (serialize_string (Some hi) st_room7) = Inr () \<and>
   string_length (Some hi) = 3 \<and>
   m_lastDataSize (snd (serialize_string (Some hi) st_room7)) = 1 \<and>
   fst (serialize_string None st_room7) = Inr () \<and>
   string_length None = 0 \<and>
   m_lastDataSize (snd (serialize_string None st_room7)) = 4"
  using string_ops_lastDataSize[of st_room7 "Some hi"] string_ops_lastDataSize[of st_room7 None]
  by (simp add: st_room7_def hi_def string_defs run_defs)

text \<open>
  Claim C7 as the spec states it, with the null-pointer and length-0 cases, fails: the
  null pointer serialized, and a zero length read by \<open>deserialize(char *&)\<close> and by
  \<open>readString\<close>, all return with the last data size at 4.
\<close>

theorem string_null_lastDataSize_4:
  "Cdr_inv st_room7 \<and>
   fst (serialize_string None st_room7) = Inr () \<and>
   m_lastDataSize (snd (serialize_string None st_room7)) = 4 \<and>
   fst (deserialize_string st_room7) = Inr None \<and>
   m_lastDataSize (snd (deserialize_string st_room7)) = 4 \<and>
   fst (readString st_room7) = Inr (EmptyLiteral, 0) \<and>
   m_lastDataSize (snd (readString st_room7)) = 4"
  by (simp add: st_room7_def string_defs run_defs)

section \<open>The string \<open>"hi"\<close> (C8)\<close>

text \<open>
  Claim C8. A little-endian codec of either flavour, new over a buffer of at least seven
  bytes, serializes \<open>"hi"\<close> to exactly \<open>03 00 00 00 68 69 00\<close> at offset 0 and stops at
  7. Over those bytes \<open>readString\<close> returns the position 4, where the three bytes
  \<open>68 69 00\<close> stand, and the length 2; \<open>deserialize(char *&)\<close> returns the three
  bytes.
\<close>

theorem string_hi_little_endian:
  assumes "7 \<le> length (m_buffer b)"
  shows
    "(let r = serialize_string (Some hi) (Cdr_new b LITTLE_ENDIANNESS t);
          rd = readString (Cdr_new (m_cdrBuffer (snd r)) LITTLE_ENDIANNESS t)
      in fst r = Inr () \<and>
         take 7 (m_buffer (m_cdrBuffer (snd r))) = [0x03, 0, 0, 0, 0x68, 0x69, 0] \<and>
         m_currentPosition (snd r) = 7 \<and>
         fst rd = Inr (InBuffer 4, 2) \<and>
         load 4 3 (m_buffer (m_cdrBuffer (snd rd))) = [0x68, 0x69, 0] \<and>
         fst (deserialize_string (Cdr_new (m_cdrBuffer (snd r)) LITTLE_ENDIANNESS t))
           = Inr (Some [0x68, 0x69, 0]))"
proof -
  from assms have room: "3 \<le> length (m_buffer b) - 4" "4 \<le> length (m_buffer b)"
    by simp_all
  have w: "serialize_string (Some hi) (Cdr_new b LITTLE_ENDIANNESS t) =
      (Inr (), (Cdr_new b LITTLE_ENDIANNESS t)
         \<lparr>m_cdrBuffer := b\<lparr>m_buffer := [3, 0, 0, 0, 0x68, 0x69, 0] @ drop 7 (m_buffer b)\<rparr>,
          m_lastDataSize := 1, m_currentPosition := 7\<rparr>)"
    using assms room
    apply (simp add: serialize_string_def serialize_string_body_def string_length_def pointee_def
        strlen_def hi_def serialize_uint32_def serialize_def host_bytes_3 cursor_defs)
    apply (simp add: store_def load_def upt_rec)
    done
  show ?thesis
    using assms room unfolding w
    apply (simp add: readString_def deserialize_string_def deserialize_uint32_def
        deserialize_def cursor_defs)
    apply (simp add: load_def upt_rec host_word_def)
    done
qed

text \<open>The theorem at a plain-CDR codec over seven zero bytes.\<close>

theorem string_hi_little_endian_witness:
  "7 \<le> length (m_buffer (m_cdrBuffer st_room7)) \<and>
   serialize_string (Some hi) st_room7 =
     (Inr (), st_room7\<lparr>m_cdrBuffer := \<lparr>m_buffer = [0x03, 0, 0, 0, 0x68, 0x69, 0], m_maxSize = 7\<rparr>,
                       m_lastDataSize := 1, m_currentPosition := 7\<rparr>) \<and>
   readString (Cdr_new \<lparr>m_buffer = [0x03, 0, 0, 0, 0x68, 0x69, 0], m_maxSize = 7\<rparr>
                 LITTLE_ENDIANNESS CORBA_CDR) =
     (Inr (InBuffer 4, 2),
      st_room7\<lparr>m_cdrBuffer := \<lparr>m_buffer = [0x03, 0, 0, 0, 0x68, 0x69, 0], m_maxSize = 7\<rparr>,
               m_lastDataSize := 1, m_currentPosition := 7\<rparr>)"
  using string_hi_little_endian[of "\<lparr>m_buffer = [0, 0, 0, 0, 0, 0, 0], m_maxSize = 7\<rparr>" CORBA_CDR]
  by (simp add: st_room7_def hi_def string_defs run_defs)

section \<open>The encapsulation header of a DDS-CDR codec (C9)\<close>

text \<open>
  Claim C9. A DDS-CDR little-endian codec with the PL flag and the options \<open>0xBEEF\<close>,
  new over a buffer of at least six bytes, writes the header \<open>00 03 EF BE\<close> at offset 0.
  After it the alignment anchor and the data cursor are both 4, so the padding of a
  16-bit value is 0, and \<open>serialize(int16_t 0x1234)\<close> writes \<open>34 12\<close> right behind
  the header and stops at 6.
\<close>

theorem encapsulation_dds_pl_little_endian:
  assumes "6 \<le> length (m_buffer b)"
  shows
    "(let c = setDDSCdrOptions 0xBEEF
                (setDDSCdrPlFlag DDS_CDR_WITH_PL (Cdr_new b LITTLE_ENDIANNESS DDS_CDR));
          r = serialize_encapsulation c;
          r2 = serialize (Int16 0x1234) (snd r)
      in fst r = Inr () \<and>
         take 4 (m_buffer (m_cdrBuffer (snd r))) = [0x00, 0x03, 0xEF, 0xBE] \<and>
         m_currentPosition (snd r) = 4 \<and>
         m_alignPosition (snd r) = 4 \<and>
         alignment (snd r) 2 = 0 \<and>
         fst r2 = Inr () \<and>
         take 6 (m_buffer (m_cdrBuffer (snd r2))) = [0x00, 0x03, 0xEF, 0xBE, 0x34, 0x12] \<and>
         m_currentPosition (snd r2) = 6)"
proof -
  let ?c = "setDDSCdrOptions 0xBEEF
              (setDDSCdrPlFlag DDS_CDR_WITH_PL (Cdr_new b LITTLE_ENDIANNESS DDS_CDR))"
  from assms have room: "Suc 0 \<le> length (m_buffer b)" "Suc 0 \<le> length (m_buffer b) - Suc 0"
    "2 \<le> length (m_buffer b) - 2" "2 \<le> length (m_buffer b) - 4"
    by simp_all
  have h: "serialize_encapsulation ?c =
      (Inr (), ?c\<lparr>m_cdrBuffer := b\<lparr>m_buffer := [0x00, 0x03, 0xEF, 0xBE] @ drop 4 (m_buffer b)\<rparr>,
                  m_lastDataSize := 2, m_currentPosition := 4, m_alignPosition := 4\<rparr>)"
    using assms room
    apply (simp add: setDDSCdrOptions_def setDDSCdrPlFlag_def serialize_encapsulation_def
        serialize_char_def serialize_uint16_def serialize_def host_bytes_BEEF cursor_defs)
    apply (simp add: store_def)
    apply (auto simp: numeral_eq_Suc)
    done
  show ?thesis
    using assms room unfolding Let_def h
    apply (simp add: setDDSCdrOptions_def setDDSCdrPlFlag_def serialize_def host_bytes_1234
        cursor_defs)
    apply (simp add: store_def)
    done
qed

text \<open>The theorem at the codec over six zero bytes.\<close>

theorem encapsulation_dds_pl_little_endian_witness:
  "6 \<le> length (m_buffer (m_cdrBuffer st_dds_pl)) \<and>
   serialize_encapsulation st_dds_pl = (Inr (), st_dds_pl_header) \<and>
   m_buffer (m_cdrBuffer st_dds_pl_header) = [0x00, 0x03, 0xEF, 0xBE, 0, 0] \<and>
   m_alignPosition st_dds_pl_header = m_currentPosition st_dds_pl_header \<and>
   alignment st_dds_pl_header 2 = 0 \<and>
   m_buffer (m_cdrBuffer (snd (serialize (Int16 0x1234) st_dds_pl_header)))
     = [0x00, 0x03, 0xEF, 0xBE, 0x34, 0x12]"
proof -
  have e: "6 \<le> length (m_buffer \<lparr>m_buffer = [0, 0, 0, 0, 0, 0], m_maxSize = 6\<rparr>)"
    by simp
  note t = encapsulation_dds_pl_little_endian[OF e, folded st_dds_pl_def, unfolded Let_def]
  from t show ?thesis
    by (simp add: serialize_encapsulation_st_dds_pl serialize_int16_st_dds_pl_header)
       (simp add: st_dds_pl_header_def st_dds_pl_def setDDSCdrOptions_def setDDSCdrPlFlag_def
          Cdr_new_def)
qed

section \<open>A failed boolean sequence and the vector of the caller (C10)\<close>

text \<open>
  Claim C10. Once \<open>deserializeBoolSequence\<close> has read the length \<open>seqLength\<close>, the
  vector of the caller has \<open>seqLength\<close> elements however the call ends: the \<open>resize\<close>
  stands before the test of the bytes left. When fewer than \<open>seqLength\<close> bytes are left
  the call throws \<open>NotEnoughMemoryException\<close> with the snapshot of the codec put back,
  and the vector of the caller is the resized one.
\<close>

theorem deserializeBoolSequence_resizes_before_check:
  assumes "Cdr_inv c"
    and "deserialize_uint32 c = (Inr seqLength, c1)"
  shows "length (fst (snd (deserializeBoolSequence vector_t c))) = unat seqLength \<and>
         (m_lastPosition c1 - m_currentPosition c1 < unat seqLength \<longrightarrow>
            deserializeBoolSequence vector_t c =
              (Inl NotEnoughMemoryException, vector_resize (unat seqLength) vector_t,
               setState (getState c) c1) \<and>
            getState (setState (getState c) c1) = getState c)"
  using assms deserializeBoolSequence_loop_length
  by (simp add: deserializeBoolSequence_def Let_def vector_resize_def getState_def setState_def)

text \<open>
  The theorem at the sequence length 3 followed by one byte: the call throws, the codec
  is as before, and the vector \<open>[True]\<close> of the caller has become
  \<open>[True, False, False]\<close>.
\<close>

theorem deserializeBoolSequence_resizes_before_check_witness:
  "Cdr_inv st_seq3 \<and>
   deserialize_uint32 st_seq3 =
     (Inr 3, st_seq3\<lparr>m_lastDataSize := 4, m_currentPosition := 4\<rparr>) \<and>
   m_lastPosition st_seq3 - 4 < unat (3 :: 32 word) \<and>
   deserializeBoolSequence [True] st_seq3 =
     (Inl NotEnoughMemoryException, [True, False, False], st_seq3)"
  using deserializeBoolSequence_resizes_before_check[of st_seq3 3
      "st_seq3\<lparr>m_lastDataSize := 4, m_currentPosition := 4\<rparr>" "[True]"]
  by (simp add: st_seq3_def deserialize_uint32_def deserialize_def host_word_def vector_resize_def
      run_defs replicate_2)

end
